theory Spec2Isabelle
  imports Complex_Main "HOL-Library.Word"
begin

section \<open>Values of the TypeScript program\<close>

text \<open>
  The oracle pipeline is TypeScript on Node. Its values are modelled as follows.
  A JavaScript string is a \<open>string\<close>. The numeric fields the pipeline compares or
  copies (ranks, unix-second timestamps, the winner code, counters) hold integers and are
  \<open>int\<close>; a score is only serialised and is a \<open>real\<close>. An optional field
  (\<open>projectName?: string\<close>) is an \<open>option\<close>, \<open>None\<close> being \<open>undefined\<close>.
  A \<open>throw\<close> is the left summand of a sum type.
\<close>

type_synonym bytes = "8 word list"

text \<open>The argument type of the hashing function of ethers: a hex string or a byte array.\<close>

datatype BytesLike = HexString string | Uint8Array bytes

text \<open>
  What a \<open>throw\<close> carries: an \<open>Error\<close> object (of any subclass, so also a
  \<open>RangeError\<close>) with its message, or a value that is not an instance of \<open>Error\<close>.
\<close>

datatype thrown = Error string | NonError

text \<open>The values handed to the ABI coder: hex strings, numbers and one bigint.\<close>

datatype js_value = JString string | JNumber int | JBigInt int

record Project =
  name :: string
  rank :: int
  score :: real
  logo :: string

text \<open>
  The functions of ethers and of the JavaScript runtime that \<open>utils.ts\<close> calls are
  not code of the repository. They are taken as parameters, collected in one record, and
  every theorem holds for every choice of them. \<open>abi_encode\<close> is
  \<open>AbiCoder.defaultAbiCoder().encode(types, values)\<close>, which throws on a value that
  does not fit its type; the hash, the UTF-8 encoder and \<open>JSON.stringify\<close> are total
  on what this code passes to them.
\<close>

record library =
  keccak256 :: "BytesLike \<Rightarrow> string"
  toUtf8Bytes :: "string \<Rightarrow> bytes"
  getBytes :: "string \<Rightarrow> bytes"
  abi_encode :: "string list \<Rightarrow> js_value list \<Rightarrow> thrown + string"
  JSON_stringify :: "Project list \<Rightarrow> string"

section \<open>utils.ts\<close>

text \<open>A template literal prints an absent optional string as \<open>undefined\<close>.\<close>

definition template :: "string option \<Rightarrow> string" where
  "template v = (case v of None \<Rightarrow> ''undefined'' | Some s \<Rightarrow> s)"

definition hashJson :: "library \<Rightarrow> string \<Rightarrow> string" where
  "hashJson L json = keccak256 L (Uint8Array (toUtf8Bytes L json))"

definition generateBlobHash ::
  "library \<Rightarrow> string \<Rightarrow> int \<Rightarrow> string \<Rightarrow> int \<Rightarrow> int \<Rightarrow> int \<Rightarrow> string \<Rightarrow> thrown + string" where
  "generateBlobHash L marketId winner snapshotHash resolvedAt challengeUntil nonce oracleAddress =
    (let typeHash = keccak256 L (Uint8Array (toUtf8Bytes L
           ''Resolve(bytes32 marketId,uint8 winner,bytes32 snapshotHash,uint64 resolvedAt,uint64 challengeUntil,uint256 nonce,address this)''))
     in case abi_encode L
            [''bytes32'', ''bytes32'', ''uint8'', ''bytes32'', ''uint64'', ''uint64'',
             ''uint256'', ''address'']
            [JString typeHash, JString marketId, JNumber winner, JString snapshotHash,
             JNumber resolvedAt, JNumber challengeUntil, JBigInt nonce,
             JString oracleAddress] of
          Inl e \<Rightarrow> Inl e
        | Inr blob \<Rightarrow> Inr (keccak256 L (HexString blob)))"

text \<open>The market definition of \<open>config.ts\<close>.\<close>

record MarketConfig =
  type :: string
  projectName :: "string option"
  projectA :: "string option"
  projectB :: "string option"
  lockTime :: int
  resolveTime :: int
  questionHash :: string
  marketId :: "string option"
  marketAddress :: "string option"

text \<open>
  \<open>determineWinner\<close> returns the object \<open>{ winner, snapshotHash }\<close>, here a pair.
  \<open>Array.prototype.find\<close> returns the first element that satisfies the predicate, as
  \<^const>\<open>find\<close> does; \<open>p.name === market.projectName\<close> is false for every entry when
  the optional name is absent. In the head-to-head branch both lookups are made before
  the test \<open>!projectA || !projectB\<close>.
\<close>

definition determineWinner ::
  "library \<Rightarrow> MarketConfig \<Rightarrow> Project list \<Rightarrow> thrown + (int \<times> string)" where
  "determineWinner L market randomizedLeaderboard =
    (let snapshotJson = JSON_stringify L randomizedLeaderboard;
         snapshotHash = hashJson L snapshotJson
     in if type market = ''top10'' then
          (case find (\<lambda>p. Some (name p) = projectName market) randomizedLeaderboard of
             None \<Rightarrow>
               Inl (Error (''Project '' @ template (projectName market)
                             @ '' not found in leaderboard''))
           | Some project \<Rightarrow>
               Inr (if rank project \<le> 10 then 1 else 2, snapshotHash))
        else if type market = ''h2h'' then
          (let foundA = find (\<lambda>p. Some (name p) = projectA market) randomizedLeaderboard;
               foundB = find (\<lambda>p. Some (name p) = projectB market) randomizedLeaderboard
           in case (foundA, foundB) of
                (Some prjA, Some prjB) \<Rightarrow>
                  Inr (if rank prjA < rank prjB then 1 else 2, snapshotHash)
              | _ \<Rightarrow>
                  Inl (Error (''Projects not found: '' @ template (projectA market)
                                @ '' or '' @ template (projectB market))))
        else Inl (Error (''Unknown market type: '' @ type market)))"


section \<open>Effects of the batch driver\<close>

text \<open>
  \<open>index.ts\<close> talks to its collaborators: the API that serves the leaderboard and the
  markets, the wallet and contract addresses of \<open>config.ts\<close>, and the chain. Each of
  them is an operation on a world \<open>'w\<close> that returns a value or throws, and may change
  the world; nothing is assumed about them. The model threads the world through the calls
  in the order the source makes them, together with a trace of the calls a claim speaks
  about: resolving a market id, signing, submitting, and \<open>console.error\<close>.
\<close>

record Resolution =
  marketId :: string
  winner :: int
  snapshotHash :: string
  resolvedAt :: int
  challengeUntil :: int
  nonce :: int

record ContractAddresses =
  settlementOracle :: string
  marketFactory :: string
  stakeToken :: string

datatype Wallet = Wallet string

datatype event =
    ComputeMarketIdCall string string int
  | SignMessageCall bytes
  | PostCall string Resolution string
  | ConsoleError string thrown

record 'w collaborators =
  getSigner :: "'w \<Rightarrow> (thrown + Wallet) \<times> 'w"
  getContracts :: "'w \<Rightarrow> (thrown + ContractAddresses) \<times> 'w"
  factory_computeMarketId ::
    "string \<Rightarrow> Wallet \<Rightarrow> string \<Rightarrow> int \<Rightarrow> 'w \<Rightarrow> (thrown + string) \<times> 'w"
  signMessage :: "Wallet \<Rightarrow> bytes \<Rightarrow> 'w \<Rightarrow> (thrown + string) \<times> 'w"
  oracle_post :: "string \<Rightarrow> Wallet \<Rightarrow> Resolution \<Rightarrow> string \<Rightarrow> 'w \<Rightarrow> (thrown + string) \<times> 'w"
  tx_wait :: "string \<Rightarrow> 'w \<Rightarrow> (thrown + unit) \<times> 'w"
  loadLeaderboardSnapshot :: "'w \<Rightarrow> (thrown + Project list) \<times> 'w"
  loadMarkets :: "'w \<Rightarrow> (thrown + MarketConfig list) \<times> 'w"
  getBlock_latest :: "Wallet \<Rightarrow> 'w \<Rightarrow> (thrown + int option) \<times> 'w"
  Date_now_seconds :: "'w \<Rightarrow> int \<times> 'w"

type_synonym 'w state = "event list \<times> 'w"

type_synonym ('w, 'a) action = "'w state \<Rightarrow> (thrown + 'a) \<times> 'w state"

definition return :: "'a \<Rightarrow> ('w, 'a) action" where
  "return a s = (Inr a, s)"

definition throw :: "thrown \<Rightarrow> ('w, 'a) action" where
  "throw e s = (Inl e, s)"

text \<open>Sequencing: the second part runs on the value of the first unless the first throws.\<close>

definition await :: "('w, 'a) action \<Rightarrow> ('a \<Rightarrow> ('w, 'b) action) \<Rightarrow> ('w, 'b) action" where
  "await f g s = (case f s of (Inl e, s') \<Rightarrow> (Inl e, s') | (Inr a, s') \<Rightarrow> g a s')"

definition try_catch :: "('w, 'a) action \<Rightarrow> (thrown \<Rightarrow> ('w, 'a) action) \<Rightarrow> ('w, 'a) action" where
  "try_catch f h s = (case f s of (Inl e, s') \<Rightarrow> h e s' | (Inr a, s') \<Rightarrow> (Inr a, s'))"

text \<open>A synchronous computation that returns or throws without touching the world.\<close>

definition lift :: "thrown + 'a \<Rightarrow> ('w, 'a) action" where
  "lift r s = (r, s)"

text \<open>A call of a collaborator: the events are recorded, then the operation runs.\<close>

definition call :: "event list \<Rightarrow> ('w \<Rightarrow> (thrown + 'a) \<times> 'w) \<Rightarrow> ('w, 'a) action" where
  "call evs f s = (case f (snd s) of (r, w') \<Rightarrow> (r, (fst s @ evs, w')))"

definition console_error :: "string \<Rightarrow> thrown \<Rightarrow> ('w, unit) action" where
  "console_error label e s = (Inr (), (fst s @ [ConsoleError label e], snd s))"

text \<open>
  \<open>new Date(ms).toISOString()\<close>: a time value beyond 8.64e15 milliseconds is an invalid
  date, on which \<open>toISOString\<close> throws a \<open>RangeError\<close>; on Node its message is
  \<open>Invalid time value\<close>. The printed string itself is only logged.
\<close>

definition Date_toISOString :: "int \<Rightarrow> thrown + unit" where
  "Date_toISOString ms =
     (if \<bar>ms\<bar> > 8640000000000000 then Inl (Error ''Invalid time value'') else Inr ())"

text \<open>\<open>String.prototype.includes\<close>: the needle occurs at some position.\<close>

fun string_includes :: "string \<Rightarrow> string \<Rightarrow> bool" where
  "string_includes [] needle = (needle = [])"
| "string_includes (c # cs) needle =
     (take (length needle) (c # cs) = needle \<or> string_includes cs needle)"

text \<open>\<open>!market.marketId\<close>: an absent id and the empty string are both falsy.\<close>

definition unset :: "string option \<Rightarrow> bool" where
  "unset v = (case v of None \<Rightarrow> True | Some s \<Rightarrow> s = [])"

section \<open>index.ts\<close>

text \<open>
  \<open>computeMarketId\<close>: the signer, the contract addresses, then the view call on the
  market factory.
\<close>

definition computeMarketId :: "'w collaborators \<Rightarrow> string \<Rightarrow> int \<Rightarrow> ('w, string) action" where
  "computeMarketId E qHash lock =
     await (call [] (getSigner E)) (\<lambda>signer.
     await (call [] (getContracts E)) (\<lambda>contracts.
       call [ComputeMarketIdCall (marketFactory contracts) qHash lock]
         (factory_computeMarketId E (marketFactory contracts) signer qHash lock)))"

text \<open>
  \<open>createResolution\<close>. Past the guard \<open>!market.marketId\<close> the id is a non-empty
  string, bound below as \<open>market_marketId\<close>. \<open>BigInt(resolvedAt)\<close> is the same
  integer. The signer and the contract addresses are fetched only after the winner is
  determined, and the signature is the last call.
\<close>

definition createResolution ::
  "library \<Rightarrow> 'w collaborators \<Rightarrow> MarketConfig \<Rightarrow> Project list \<Rightarrow> int
     \<Rightarrow> ('w, Resolution \<times> string) action" where
  "createResolution L E market randomizedLeaderboard blockTimestamp =
     (case (if unset (MarketConfig.marketId market) then None
            else MarketConfig.marketId market) of
        None \<Rightarrow> throw (Error (''Market ID not set for market: '' @ questionHash market))
      | Some market_marketId \<Rightarrow>
        await (lift (determineWinner L market randomizedLeaderboard)) (\<lambda>(winner, snapshotHash).
          let resolvedAt = blockTimestamp;
              challengeUntil = 0;
              nonce = resolvedAt;
              resolution = \<lparr> marketId = market_marketId,
                             winner = winner,
                             snapshotHash = snapshotHash,
                             resolvedAt = resolvedAt,
                             challengeUntil = challengeUntil,
                             nonce = nonce \<rparr>
          in await (call [] (getSigner E)) (\<lambda>signer.
             await (call [] (getContracts E)) (\<lambda>contracts.
               let oracleAddress = settlementOracle contracts
               in await (lift (generateBlobHash L (marketId resolution) (Resolution.winner resolution)
                                 (Resolution.snapshotHash resolution) (Resolution.resolvedAt resolution)
                                 (Resolution.challengeUntil resolution) (Resolution.nonce resolution)
                                 oracleAddress)) (\<lambda>blob.
                  await (call [SignMessageCall (getBytes L blob)]
                           (signMessage E signer (getBytes L blob))) (\<lambda>signature.
                    return (resolution, signature)))))))"

definition postResolution :: "'w collaborators \<Rightarrow> Resolution \<Rightarrow> string \<Rightarrow> ('w, unit) action" where
  "postResolution E resolution signature =
     await (call [] (getSigner E)) (\<lambda>signer.
     await (call [] (getContracts E)) (\<lambda>contracts.
     await (call [PostCall (settlementOracle contracts) resolution signature]
              (oracle_post E (settlementOracle contracts) signer resolution signature)) (\<lambda>tx.
       call [] (tx_wait E tx))))"


text \<open>
  \<open>processMarkets\<close>. The two counters of the loop are local variables; the model
  passes them along and returns them, since the last log line prints them.
\<close>

record counters =
  processed :: int
  skipped :: int

text \<open>
  The part of the loop body after the time gate: the market id is computed when it is not
  set and stored on the market (the assignment \<open>market.marketId = ...\<close> is the inner
  \<open>market\<close> bound below), the resolution is created and signed, its date is logged
  (which throws on an invalid date), and the resolution is posted.
\<close>

definition ready_processing ::
  "library \<Rightarrow> 'w collaborators \<Rightarrow> Project list \<Rightarrow> int \<Rightarrow> MarketConfig \<Rightarrow> ('w, unit) action" where
  "ready_processing L E leaderboardSnapshot blockTimestamp market =
     await (if unset (MarketConfig.marketId market) then
              await (computeMarketId E (questionHash market) (lockTime market)) (\<lambda>computed.
                return (market\<lparr>MarketConfig.marketId := Some computed\<rparr>))
            else return market) (\<lambda>market.
     await (createResolution L E market leaderboardSnapshot blockTimestamp) (\<lambda>(resolution, signature).
     await (lift (Date_toISOString (resolvedAt resolution * 1000))) (\<lambda>_.
       postResolution E resolution signature)))"

text \<open>
  The \<open>try\<close> block of one iteration. The resolve time is printed as a date before the
  gate; in the gate the block timestamp is printed as a date too.
\<close>

definition try_block ::
  "library \<Rightarrow> 'w collaborators \<Rightarrow> Project list \<Rightarrow> int \<Rightarrow> MarketConfig \<Rightarrow> counters
     \<Rightarrow> ('w, counters) action" where
  "try_block L E leaderboardSnapshot blockTimestamp market c =
     await (lift (Date_toISOString (resolveTime market * 1000))) (\<lambda>_.
       if blockTimestamp < resolveTime market then
         await (lift (Date_toISOString (blockTimestamp * 1000))) (\<lambda>_.
           return (c\<lparr>skipped := skipped c + 1\<rparr>))
       else
         await (ready_processing L E leaderboardSnapshot blockTimestamp market) (\<lambda>_.
           return (c\<lparr>processed := processed c + 1\<rparr>)))"

text \<open>The \<open>catch\<close> block: \<open>error instanceof Error && error.message.includes("time")\<close>.\<close>

definition time_related :: "thrown \<Rightarrow> bool" where
  "time_related e = (case e of Error message \<Rightarrow> string_includes message ''time'' | NonError \<Rightarrow> False)"

definition catch_block :: "MarketConfig \<Rightarrow> counters \<Rightarrow> thrown \<Rightarrow> ('w, counters) action" where
  "catch_block market c error =
     await (console_error (''Error processing market '' @ questionHash market @ '':'') error) (\<lambda>_.
       if time_related error then return (c\<lparr>skipped := skipped c + 1\<rparr>)
       else throw error)"

definition iteration ::
  "library \<Rightarrow> 'w collaborators \<Rightarrow> Project list \<Rightarrow> int \<Rightarrow> MarketConfig \<Rightarrow> counters
     \<Rightarrow> ('w, counters) action" where
  "iteration L E leaderboardSnapshot blockTimestamp market c =
     try_catch (try_block L E leaderboardSnapshot blockTimestamp market c) (catch_block market c)"

text \<open>\<open>for (const market of markets)\<close>: an error that leaves an iteration ends the loop.\<close>

fun for_markets ::
  "library \<Rightarrow> 'w collaborators \<Rightarrow> Project list \<Rightarrow> int \<Rightarrow> MarketConfig list \<Rightarrow> counters
     \<Rightarrow> ('w, counters) action" where
  "for_markets L E leaderboardSnapshot blockTimestamp [] c = return c"
| "for_markets L E leaderboardSnapshot blockTimestamp (market # markets) c =
     await (iteration L E leaderboardSnapshot blockTimestamp market c)
       (for_markets L E leaderboardSnapshot blockTimestamp markets)"

text \<open>
  The whole run: the snapshot, the markets and the chain time are read once. With no
  market the run ends before the chain is asked; a missing block falls back on the clock.
\<close>

definition processMarkets :: "library \<Rightarrow> 'w collaborators \<Rightarrow> ('w, counters option) action" where
  "processMarkets L E =
     await (call [] (loadLeaderboardSnapshot E)) (\<lambda>leaderboardSnapshot.
     await (call [] (loadMarkets E)) (\<lambda>markets.
       if markets = [] then return None
       else
         await (call [] (getSigner E)) (\<lambda>signer.
         await (call [] (getBlock_latest E signer)) (\<lambda>block.
         await (case block of
                  Some timestamp \<Rightarrow> return timestamp
                | None \<Rightarrow> call [] (\<lambda>w. case Date_now_seconds E w of (t, w') \<Rightarrow> (Inr t, w')))
           (\<lambda>blockTimestamp.
         await (for_markets L E leaderboardSnapshot blockTimestamp markets
                  \<lparr>processed = 0, skipped = 0\<rparr>) (\<lambda>c.
           return (Some c)))))))"


section \<open>Notions of the specification\<close>

text \<open>
  The digest as the specification words it: a type hash over the literal schema string,
  then the eight fields in the stated order, each with its ABI type, encoded and hashed.
\<close>

definition Resolve_schema :: string where
  "Resolve_schema =
     ''Resolve(bytes32 marketId,uint8 winner,bytes32 snapshotHash,uint64 resolvedAt,uint64 challengeUntil,uint256 nonce,address this)''"

definition commitment_fields ::
  "string \<Rightarrow> string \<Rightarrow> int \<Rightarrow> string \<Rightarrow> int \<Rightarrow> int \<Rightarrow> int \<Rightarrow> string \<Rightarrow> (string \<times> js_value) list" where
  "commitment_fields typeHash mid w sh ra cu n verifier =
     [(''bytes32'', JString typeHash),
      (''bytes32'', JString mid),
      (''uint8'', JNumber w),
      (''bytes32'', JString sh),
      (''uint64'', JNumber ra),
      (''uint64'', JNumber cu),
      (''uint256'', JBigInt n),
      (''address'', JString verifier)]"

definition buildBlobDigest ::
  "library \<Rightarrow> string \<Rightarrow> int \<Rightarrow> string \<Rightarrow> int \<Rightarrow> int \<Rightarrow> int \<Rightarrow> string \<Rightarrow> thrown + string" where
  "buildBlobDigest L mid w sh ra cu n verifier =
     (let typeHash = keccak256 L (Uint8Array (toUtf8Bytes L Resolve_schema));
          fields = commitment_fields typeHash mid w sh ra cu n verifier
      in map_sum id (\<lambda>encoded. keccak256 L (HexString encoded))
           (abi_encode L (map fst fields) (map snd fields)))"

text \<open>
  The entry a lookup by name returns is the first one with that name; a name is absent
  when no entry has it.
\<close>

definition first_named :: "Project list \<Rightarrow> string option \<Rightarrow> nat \<Rightarrow> bool" where
  "first_named lb n i =
     (i < length lb \<and> Some (name (lb ! i)) = n \<and> (\<forall>p \<in> set (take i lb). Some (name p) \<noteq> n))"

definition absent :: "Project list \<Rightarrow> string option \<Rightarrow> bool" where
  "absent lb n = (\<forall>p \<in> set lb. Some (name p) \<noteq> n)"

text \<open>A market whose subject, or one of whose two subjects, is not in the snapshot.\<close>

definition subject_absent :: "MarketConfig \<Rightarrow> Project list \<Rightarrow> bool" where
  "subject_absent market lb =
     (type market = ''top10'' \<and> absent lb (projectName market) \<or>
      type market = ''h2h'' \<and> (absent lb (projectA market) \<or> absent lb (projectB market)))"

text \<open>
  The errors the specification calls \<open>NotFound\<close> and \<open>MarketIdUnset\<close> are plain
  \<open>Error\<close> objects in the code, told apart by the message each throw site builds.
\<close>

definition NotFound :: "MarketConfig \<Rightarrow> thrown" where
  "NotFound market =
     (if type market = ''top10'' then
        Error (''Project '' @ template (projectName market) @ '' not found in leaderboard'')
      else
        Error (''Projects not found: '' @ template (projectA market) @ '' or ''
                 @ template (projectB market)))"

definition MarketIdUnset :: "MarketConfig \<Rightarrow> thrown" where
  "MarketIdUnset market = Error (''Market ID not set for market: '' @ questionHash market)"

text \<open>What the \<open>catch\<close> block prints before the error.\<close>

definition error_label :: "MarketConfig \<Rightarrow> string" where
  "error_label market = ''Error processing market '' @ questionHash market @ '':''"

text \<open>
  What an iteration that stops at the time gate adds to the trace: nothing, or the logged
  \<open>RangeError\<close> when one of the two dates it prints is invalid.
\<close>

definition gate_log :: "int \<Rightarrow> MarketConfig \<Rightarrow> event list" where
  "gate_log blockTimestamp market =
     (if Date_toISOString (resolveTime market * 1000) = Inr () \<and>
         Date_toISOString (blockTimestamp * 1000) = Inr ()
      then []
      else [ConsoleError (error_label market) (Error ''Invalid time value'')])"

text \<open>The events that are calls to the chain or the signer, as opposed to log lines.\<close>

fun chain_call :: "event \<Rightarrow> bool" where
  "chain_call (ConsoleError label e) = False"
| "chain_call ev = True"

fun sign_or_post :: "event \<Rightarrow> bool" where
  "sign_or_post (SignMessageCall b) = True"
| "sign_or_post (PostCall oracle r sig) = True"
| "sign_or_post ev = False"

section \<open>A concrete setting\<close>

text \<open>
  A small library and chain on which the definitions evaluate: the hash tags its input,
  the coder concatenates the type names, the chain counts the posted transactions and
  rejects the market \<open>0xearly\<close> with a time-related message.
\<close>

definition utf8_byte :: "char \<Rightarrow> 8 word" where
  "utf8_byte c = of_nat (of_char c)"

definition byte_char :: "8 word \<Rightarrow> char" where
  "byte_char b = char_of (unat b)"

definition demo_library :: library where
  "demo_library =
     \<lparr> keccak256 = (\<lambda>b. case b of HexString h \<Rightarrow> ''0xhash:'' @ h
                                 | Uint8Array bs \<Rightarrow> ''0xhash:'' @ map byte_char bs),
       toUtf8Bytes = map utf8_byte,
       getBytes = map utf8_byte,
       abi_encode = (\<lambda>ts vs. if length ts = length vs then Inr (concat ts)
                              else Inl (Error ''types/values length mismatch'')),
       JSON_stringify = (\<lambda>ps. concat (map (\<lambda>p. name p @ '';'') ps)) \<rparr>"

definition demo_chain :: "nat collaborators" where
  "demo_chain =
     \<lparr> getSigner = (\<lambda>w. (Inr (Wallet ''0xkey''), w)),
       getContracts = (\<lambda>w. (Inr \<lparr> settlementOracle = ''0xoracle'', marketFactory = ''0xfactory'',
                                    stakeToken = ''0xtoken'' \<rparr>, w)),
       factory_computeMarketId = (\<lambda>factory signer q lock w. (Inr (''0xid:'' @ q), w)),
       signMessage = (\<lambda>signer digest w. (Inr ''0xsig'', w)),
       oracle_post = (\<lambda>oracle signer r sig w.
                        if marketId r = ''0xearly''
                        then (Inl (Error ''execution reverted: resolve time not reached''), w)
                        else (Inr ''0xtx'', Suc w)),
       tx_wait = (\<lambda>tx w. (Inr (), w)),
       loadLeaderboardSnapshot = (\<lambda>w. (Inr [], w)),
       loadMarkets = (\<lambda>w. (Inr [], w)),
       getBlock_latest = (\<lambda>signer w. (Inr (Some 100), w)),
       Date_now_seconds = (\<lambda>w. (100, w)) \<rparr>"

definition entry :: "string \<Rightarrow> int \<Rightarrow> Project" where
  "entry n r = \<lparr> name = n, rank = r, score = 0, logo = [] \<rparr>"

text \<open>Twelve entries ranked 1 to 12.\<close>

definition board :: "Project list" where
  "board = [entry ''P01'' 1, entry ''P02'' 2, entry ''P03'' 3, entry ''P04'' 4,
            entry ''P05'' 5, entry ''P06'' 6, entry ''P07'' 7, entry ''P08'' 8,
            entry ''P09'' 9, entry ''P10'' 10, entry ''P11'' 11, entry ''P12'' 12]"

definition top10_market :: "string \<Rightarrow> string option \<Rightarrow> int \<Rightarrow> MarketConfig" where
  "top10_market n mid t =
     \<lparr> type = ''top10'', projectName = Some n, projectA = None, projectB = None,
       lockTime = 50, resolveTime = t, questionHash = ''0xq'', marketId = mid,
       marketAddress = None \<rparr>"

definition h2h_market :: "string \<Rightarrow> string \<Rightarrow> MarketConfig" where
  "h2h_market a b =
     \<lparr> type = ''h2h'', projectName = None, projectA = Some a, projectB = Some b,
       lockTime = 50, resolveTime = 100, questionHash = ''0xq'', marketId = Some ''0xm'',
       marketAddress = None \<rparr>"


text \<open>
  A batch of two threshold markets with 32-byte question hashes and ids, both past their
  resolve time at block time 100: the subject of the first is not on the board, the
  subject of the second is.
\<close>

definition missing_market :: MarketConfig where
  "missing_market =
     \<lparr> type = ''top10'', projectName = Some ''Ghost'', projectA = None, projectB = None,
       lockTime = 50, resolveTime = 100,
       questionHash = ''0x1111111111111111111111111111111111111111111111111111111111111111'',
       marketId = Some ''0xaaaaaaaaaaaaaaaaaaaaaaaaaaaaaaaaaaaaaaaaaaaaaaaaaaaaaaaaaaaaaaaa'',
       marketAddress = None \<rparr>"

definition listed_market :: MarketConfig where
  "listed_market =
     \<lparr> type = ''top10'', projectName = Some ''P10'', projectA = None, projectB = None,
       lockTime = 50, resolveTime = 100,
       questionHash = ''0x2222222222222222222222222222222222222222222222222222222222222222'',
       marketId = Some ''0xbbbbbbbbbbbbbbbbbbbbbbbbbbbbbbbbbbbbbbbbbbbbbbbbbbbbbbbbbbbbbbbb'',
       marketAddress = None \<rparr>"

section \<open>Winner determination and hashing\<close>

lemma byte_char_utf8_byte [simp]: "byte_char (utf8_byte c) = c"
  by (simp add: byte_char_def utf8_byte_def unat_of_nat)

lemma find_absent: "absent lb n \<Longrightarrow> find (\<lambda>p. Some (name p) = n) lb = None"
  by (auto simp: absent_def find_None_iff)

lemma find_first_named:
  assumes "first_named lb n i"
  shows "find (\<lambda>p. Some (name p) = n) lb = Some (lb ! i)"
proof -
  from assms have i: "i < length lb" and hit: "Some (name (lb ! i)) = n"
    and before: "\<forall>p \<in> set (take i lb). Some (name p) \<noteq> n"
    by (simp_all add: first_named_def)
  have "\<forall>j<i. Some (name (lb ! j)) \<noteq> n"
  proof (intro allI impI)
    fix j assume "j < i"
    with i have "lb ! j \<in> set (take i lb)"
      by (metis in_set_conv_nth length_take min.absorb2 nth_take less_imp_le_nat)
    with before show "Some (name (lb ! j)) \<noteq> n" by blast
  qed
  with i hit show ?thesis unfolding find_Some_iff by blast
qed

text \<open>
  Claim C1. For all arguments \<open>generateBlobHash\<close> returns the hash of the ABI
  encoding of the eight fields in the order type hash, market id, winner, snapshot hash,
  resolved-at, challenge-until, nonce, oracle address, with the types bytes32, bytes32,
  uint8, bytes32, uint64, uint64, uint256, address, the type hash being the hash of the
  UTF-8 bytes of the schema string; it throws exactly when the coder throws.
\<close>

theorem generateBlobHash_is_buildBlobDigest:
  "generateBlobHash L mid w sh ra cu n verifier = buildBlobDigest L mid w sh ra cu n verifier"
  by (cases "abi_encode L
            [''bytes32'', ''bytes32'', ''uint8'', ''bytes32'', ''uint64'', ''uint64'',
             ''uint256'', ''address'']
            [JString (keccak256 L (Uint8Array (toUtf8Bytes L Resolve_schema))), JString mid, JNumber w, JString sh,
             JNumber ra, JNumber cu, JBigInt n, JString verifier]")
     (simp_all add: generateBlobHash_def buildBlobDigest_def commitment_fields_def Resolve_schema_def)

text \<open>
  Claim C2. On a threshold market, \<open>determineWinner\<close> throws the not-found error
  when no entry has the subject's name; otherwise the entry found decides: winner 1 when
  its rank is at most 10, winner 2 when its rank is above 10. The threshold is the
  constant 10 for every market and snapshot.
\<close>

theorem determineWinner_top10:
  assumes "type market = ''top10''"
  shows "(absent lb (projectName market) \<longrightarrow> determineWinner L market lb = Inl (NotFound market))
       \<and> (\<forall>i. first_named lb (projectName market) i \<longrightarrow>
            (rank (lb ! i) \<le> 10 \<longrightarrow>
               determineWinner L market lb = Inr (1, hashJson L (JSON_stringify L lb))) \<and>
            (rank (lb ! i) > 10 \<longrightarrow>
               determineWinner L market lb = Inr (2, hashJson L (JSON_stringify L lb))))"
  using assms
  by (auto simp: determineWinner_def NotFound_def find_absent find_first_named)

lemma first_P10: "first_named board (Some ''P10'') 9"
  by (simp add: first_named_def board_def entry_def)

lemma first_P11: "first_named board (Some ''P11'') 10"
  by (simp add: first_named_def board_def entry_def)

lemma absent_Ghost: "absent board (Some ''Ghost'')"
  by (simp add: absent_def board_def entry_def)

theorem determineWinner_top10_witness:
  "determineWinner demo_library (top10_market ''P10'' None 100) board
     = Inr (1, hashJson demo_library (JSON_stringify demo_library board))
   \<and> determineWinner demo_library (top10_market ''P11'' None 100) board
     = Inr (2, hashJson demo_library (JSON_stringify demo_library board))
   \<and> determineWinner demo_library (top10_market ''Ghost'' None 100) board
     = Inl (Error ''Project Ghost not found in leaderboard'')"
proof -
  have t: "\<And>n. type (top10_market n None 100) = ''top10''"
    by (simp add: top10_market_def)
  have n: "\<And>n. projectName (top10_market n None 100) = Some n"
    by (simp add: top10_market_def)
  have r10: "rank (board ! 9) \<le> 10" and r11: "rank (board ! 10) > 10"
    by (simp_all add: board_def entry_def)
  have nf: "NotFound (top10_market ''Ghost'' None 100) = Error ''Project Ghost not found in leaderboard''"
    by (simp add: NotFound_def top10_market_def template_def)
  show ?thesis
    using determineWinner_top10 [OF t, of board "''P10''" demo_library]
          determineWinner_top10 [OF t, of board "''P11''" demo_library]
          determineWinner_top10 [OF t, of board "''Ghost''" demo_library]
          first_P10 first_P11 absent_Ghost r10 r11
    by (simp add: n nf)
qed


text \<open>
  Claim C3. On a head-to-head market, \<open>determineWinner\<close> throws the not-found error
  when either subject is absent; otherwise winner 1 when subject A's rank is below subject
  B's and winner 2 if not, so equal ranks give winner 2.
\<close>

theorem determineWinner_h2h:
  assumes "type market = ''h2h''"
  shows "(absent lb (projectA market) \<or> absent lb (projectB market) \<longrightarrow>
            determineWinner L market lb = Inl (NotFound market))
       \<and> (\<forall>i k. first_named lb (projectA market) i \<and> first_named lb (projectB market) k \<longrightarrow>
            (rank (lb ! i) < rank (lb ! k) \<longrightarrow>
               determineWinner L market lb = Inr (1, hashJson L (JSON_stringify L lb))) \<and>
            (\<not> rank (lb ! i) < rank (lb ! k) \<longrightarrow>
               determineWinner L market lb = Inr (2, hashJson L (JSON_stringify L lb))) \<and>
            (rank (lb ! i) = rank (lb ! k) \<longrightarrow>
               determineWinner L market lb = Inr (2, hashJson L (JSON_stringify L lb))))"
  using assms
  by (auto simp: determineWinner_def NotFound_def find_absent find_first_named split: option.splits)

lemma first_P03: "first_named board (Some ''P03'') 2"
  by (simp add: first_named_def board_def entry_def)

lemma first_P07: "first_named board (Some ''P07'') 6"
  by (simp add: first_named_def board_def entry_def)

theorem determineWinner_h2h_witness:
  "determineWinner demo_library (h2h_market ''P03'' ''P07'') board
     = Inr (1, hashJson demo_library (JSON_stringify demo_library board))
   \<and> determineWinner demo_library (h2h_market ''P07'' ''P03'') board
     = Inr (2, hashJson demo_library (JSON_stringify demo_library board))
   \<and> determineWinner demo_library (h2h_market ''P07'' ''P07'') board
     = Inr (2, hashJson demo_library (JSON_stringify demo_library board))
   \<and> determineWinner demo_library (h2h_market ''P03'' ''Ghost'') board
     = Inl (Error ''Projects not found: P03 or Ghost'')"
proof -
  have t: "\<And>a b. type (h2h_market a b) = ''h2h''"
    by (simp add: h2h_market_def)
  have n: "\<And>a b. projectA (h2h_market a b) = Some a" "\<And>a b. projectB (h2h_market a b) = Some b"
    by (simp_all add: h2h_market_def)
  have r: "rank (board ! 2) < rank (board ! 6)" "\<not> rank (board ! 6) < rank (board ! 2)"
    by (simp_all add: board_def entry_def)
  have nf: "NotFound (h2h_market ''P03'' ''Ghost'') = Error ''Projects not found: P03 or Ghost''"
    by (simp add: NotFound_def h2h_market_def template_def)
  show ?thesis
    using determineWinner_h2h [OF t, of board "''P03''" "''P07''" demo_library]
          determineWinner_h2h [OF t, of board "''P07''" "''P03''" demo_library]
          determineWinner_h2h [OF t, of board "''P07''" "''P07''" demo_library]
          determineWinner_h2h [OF t, of board "''P03''" "''Ghost''" demo_library]
          first_P03 first_P07 absent_Ghost r
    by (simp add: n nf)
qed

text \<open>
  Claim C10. The snapshot hash that \<open>determineWinner\<close> returns is the hash of the
  serialised leaderboard whatever the market: two successful calls on one leaderboard
  return the same hash.
\<close>

theorem snapshotHash_independent_of_market:
  assumes "determineWinner L market1 lb = Inr (w1, h1)"
      and "determineWinner L market2 lb = Inr (w2, h2)"
  shows "h1 = h2 \<and> h1 = hashJson L (JSON_stringify L lb)"
  using assms
  by (auto simp: determineWinner_def Let_def split: if_splits option.splits)

theorem snapshotHash_independent_of_market_witness:
  "determineWinner demo_library (top10_market ''P11'' None 100) board = Inr (2, ''0xhash:P01;P02;P03;P04;P05;P06;P07;P08;P09;P10;P11;P12;'')
   \<and> determineWinner demo_library (h2h_market ''P03'' ''P07'') board = Inr (1, ''0xhash:P01;P02;P03;P04;P05;P06;P07;P08;P09;P10;P11;P12;'')"
proof -
  have a: "determineWinner demo_library (top10_market ''P11'' None 100) board
             = Inr (2, hashJson demo_library (JSON_stringify demo_library board))"
    by (simp add: determineWinner_def top10_market_def board_def entry_def)
  have b: "determineWinner demo_library (h2h_market ''P03'' ''P07'') board
             = Inr (1, hashJson demo_library (JSON_stringify demo_library board))"
    by (simp add: determineWinner_def h2h_market_def board_def entry_def)
  have h: "hashJson demo_library (JSON_stringify demo_library board)
             = ''0xhash:P01;P02;P03;P04;P05;P06;P07;P08;P09;P10;P11;P12;''"
    by (simp add: hashJson_def demo_library_def board_def entry_def)
  from snapshotHash_independent_of_market [OF a b] a b h show ?thesis by simp
qed

section \<open>Sequencing\<close>

lemma await_return [simp]: "await (return a) g = g a"
  by (rule ext) (simp add: await_def return_def)

lemma await_throw [simp]: "await (throw e) g = throw e"
  by (rule ext) (simp add: await_def throw_def)

lemma await_lift_Inr [simp]: "await (lift (Inr a)) g = g a"
  by (rule ext) (simp add: await_def lift_def)

lemma await_lift_Inl [simp]: "await (lift (Inl e)) g = throw e"
  by (rule ext) (simp add: await_def lift_def throw_def)

lemma await_assoc: "await (await f g) h = await f (\<lambda>a. await (g a) h)"
  by (rule ext) (simp add: await_def split: prod.splits sum.splits)

lemma await_InrE:
  assumes "await f g s = (Inr b, s')"
  obtains a s1 where "f s = (Inr a, s1)" and "g a s1 = (Inr b, s')"
  using assms by (auto simp: await_def split: prod.splits sum.splits)

lemma createResolution_unset:
  "unset (MarketConfig.marketId market) \<Longrightarrow>
     createResolution L E market lb ts s = (Inl (MarketIdUnset market), s)"
  by (simp add: createResolution_def MarketIdUnset_def throw_def)

lemma createResolution_set:
  assumes "\<not> unset (MarketConfig.marketId market)"
  shows "createResolution L E market lb ts =
     await (lift (determineWinner L market lb)) (\<lambda>(w, h).
       await (call [] (getSigner E)) (\<lambda>signer.
       await (call [] (getContracts E)) (\<lambda>contracts.
       await (lift (generateBlobHash L (case_option [] id (MarketConfig.marketId market)) w h ts 0 ts
                      (settlementOracle contracts))) (\<lambda>blob.
       await (call [SignMessageCall (getBytes L blob)] (signMessage E signer (getBytes L blob)))
         (\<lambda>signature.
           return (\<lparr> marketId = case_option [] id (MarketConfig.marketId market), winner = w,
                      snapshotHash = h, resolvedAt = ts, challengeUntil = 0, nonce = ts \<rparr>,
                   signature))))))"
  using assms
  by (cases "MarketConfig.marketId market")
     (simp_all add: createResolution_def unset_def Let_def)

lemma createResolution_returns:
  assumes "createResolution L E market lb ts s = (Inr (r, sig), s')"
  shows "\<not> unset (MarketConfig.marketId market)
       \<and> MarketConfig.marketId market = Some (marketId r)
       \<and> determineWinner L market lb = Inr (winner r, snapshotHash r)
       \<and> resolvedAt r = ts \<and> challengeUntil r = 0 \<and> nonce r = ts"
proof -
  have set: "\<not> unset (MarketConfig.marketId market)"
    using assms by (auto simp: createResolution_unset)
  then obtain mid where mid: "MarketConfig.marketId market = Some mid"
    by (cases "MarketConfig.marketId market") (auto simp: unset_def)
  from assms [unfolded createResolution_set [OF set]]
  obtain wh s1 where dw: "lift (determineWinner L market lb) s = (Inr wh, s1)"
    and rest: "(case wh of (w, h) \<Rightarrow>
       await (call [] (getSigner E)) (\<lambda>signer.
       await (call [] (getContracts E)) (\<lambda>contracts.
       await (lift (generateBlobHash L (case_option [] id (MarketConfig.marketId market)) w h ts 0 ts
                      (settlementOracle contracts))) (\<lambda>blob.
       await (call [SignMessageCall (getBytes L blob)] (signMessage E signer (getBytes L blob)))
         (\<lambda>signature.
           return (\<lparr> marketId = case_option [] id (MarketConfig.marketId market), winner = w,
                      snapshotHash = h, resolvedAt = ts, challengeUntil = 0, nonce = ts \<rparr>,
                   signature)))))) s1 = (Inr (r, sig), s')"
    by (rule await_InrE)
  obtain w h where wh: "wh = (w, h)" by (cases wh)
  from dw wh have dw': "determineWinner L market lb = Inr (w, h)"
    by (simp add: lift_def)
  from rest [unfolded wh prod.case]
  have "r = \<lparr> marketId = mid, winner = w, snapshotHash = h, resolvedAt = ts,
               challengeUntil = 0, nonce = ts \<rparr>"
    by (auto simp: mid return_def elim!: await_InrE)
  with set mid dw' show ?thesis by simp
qed

text \<open>
  Claim C6. With the market id unset \<open>createResolution\<close> throws the
  id-not-set error and leaves trace and world as they were: no winner is computed, nothing
  is signed. Whenever it returns a resolution, the market id was set and is the
  resolution's, the winner and snapshot hash are those of \<open>determineWinner\<close>,
  \<open>challengeUntil\<close> is 0 and \<open>nonce\<close> and \<open>resolvedAt\<close> are the given timestamp.
\<close>

theorem createResolution_marketId:
  "(unset (MarketConfig.marketId market) \<longrightarrow>
      createResolution L E market lb ts s = (Inl (MarketIdUnset market), s))
   \<and> (\<forall>r sig s'. createResolution L E market lb ts s = (Inr (r, sig), s') \<longrightarrow>
        MarketConfig.marketId market = Some (marketId r)
        \<and> determineWinner L market lb = Inr (winner r, snapshotHash r)
        \<and> resolvedAt r = ts \<and> challengeUntil r = 0 \<and> nonce r = ts)"
  using createResolution_unset createResolution_returns by blast


text \<open>The executable test is the substring relation.\<close>

lemma take_length_eq_iff: "take (length n) xs = n \<longleftrightarrow> (\<exists>q. xs = n @ q)"
  by (metis append_eq_conv_conj append_take_drop_id)

lemma string_includes_iff: "string_includes s n \<longleftrightarrow> (\<exists>p q. s = p @ n @ q)"
proof (induction s)
  case Nil
  show ?case by auto
next
  case (Cons c cs)
  have "(\<exists>p q. c # cs = p @ n @ q) \<longleftrightarrow> (\<exists>q. c # cs = n @ q) \<or> (\<exists>p q. cs = p @ n @ q)"
  proof
    assume "\<exists>p q. c # cs = p @ n @ q"
    then obtain p q where pq: "c # cs = p @ n @ q" by blast
    show "(\<exists>q. c # cs = n @ q) \<or> (\<exists>p q. cs = p @ n @ q)"
    proof (cases p)
      case Nil
      with pq show ?thesis by auto
    next
      case (Cons a p')
      with pq have "cs = p' @ n @ q" by simp
      then show ?thesis by blast
    qed
  next
    assume "(\<exists>q. c # cs = n @ q) \<or> (\<exists>p q. cs = p @ n @ q)"
    then show "\<exists>p q. c # cs = p @ n @ q"
    proof
      assume "\<exists>q. c # cs = n @ q"
      then obtain q where "c # cs = [] @ n @ q" by auto
      then show ?thesis by blast
    next
      assume "\<exists>p q. cs = p @ n @ q"
      then obtain p q where "c # cs = (c # p) @ n @ q" by auto
      then show ?thesis by blast
    qed
  qed
  with Cons.IH show ?case by (simp add: take_length_eq_iff)
qed

lemma for_markets_append:
  "for_markets L E lb ts (xs @ ys) =
     (\<lambda>c. await (for_markets L E lb ts xs c) (for_markets L E lb ts ys))"
proof (induction xs)
  case Nil
  show ?case by (rule ext) simp
next
  case (Cons x xs)
  show ?case by (rule ext) (simp add: Cons.IH await_assoc)
qed

lemma time_related_invalid_date: "time_related (Error ''Invalid time value'')"
  by (simp add: time_related_def)

lemma Date_toISOString_Inl:
  "Date_toISOString ms = Inl e \<Longrightarrow> e = Error ''Invalid time value''"
  by (auto simp: Date_toISOString_def split: if_splits)

lemma iteration_not_ready:
  assumes "ts < resolveTime market"
  shows "iteration L E lb ts market c s =
           (Inr (c\<lparr>skipped := skipped c + 1\<rparr>), (fst s @ gate_log ts market, snd s))"
proof (cases "Date_toISOString (resolveTime market * 1000)")
  case (Inl e)
  show ?thesis using Inl assms time_related_invalid_date Date_toISOString_Inl [OF Inl]
    by (simp add: iteration_def try_block_def try_catch_def throw_def catch_block_def
        console_error_def await_def return_def gate_log_def error_label_def)
next
  case (Inr u)
  show ?thesis
  proof (cases "Date_toISOString (ts * 1000)")
    case (Inl e)
    show ?thesis using Inl Inr assms time_related_invalid_date Date_toISOString_Inl [OF Inl]
      by (simp add: iteration_def try_block_def try_catch_def throw_def catch_block_def
          console_error_def await_def return_def gate_log_def error_label_def)
  next
    case (Inr u')
    show ?thesis using Inr \<open>Date_toISOString (resolveTime market * 1000) = Inr u\<close> assms
      by (simp add: iteration_def try_block_def try_catch_def return_def gate_log_def)
  qed
qed

text \<open>
  Claim C5. A market that the loop reaches and whose resolve time is after the block
  timestamp adds one to \<open>skipped\<close> and leaves \<open>processed\<close>; the world is
  untouched and the trace gains no call (no market id resolved, nothing signed, nothing
  posted), at most the log line of an invalid date; the loop goes on with the markets
  after it.
\<close>

theorem not_ready_market_is_skipped:
  assumes "blockTimestamp < resolveTime market"
      and "for_markets L E lb blockTimestamp before c0 s0 = (Inr c, s)"
  shows "iteration L E lb blockTimestamp market c s =
           (Inr (c\<lparr>skipped := skipped c + 1\<rparr>), (fst s @ gate_log blockTimestamp market, snd s))
       \<and> for_markets L E lb blockTimestamp (before @ market # after) c0 s0 =
           for_markets L E lb blockTimestamp after (c\<lparr>skipped := skipped c + 1\<rparr>)
             (fst s @ gate_log blockTimestamp market, snd s)
       \<and> (\<forall>ev \<in> set (gate_log blockTimestamp market). \<not> chain_call ev)"
proof -
  note it = iteration_not_ready [OF assms(1), of L E lb c s]
  have "for_markets L E lb blockTimestamp (before @ market # after) c0 s0 =
          for_markets L E lb blockTimestamp (market # after) c s"
    using assms(2) by (simp add: for_markets_append await_def)
  also have "\<dots> = for_markets L E lb blockTimestamp after (c\<lparr>skipped := skipped c + 1\<rparr>)
             (fst s @ gate_log blockTimestamp market, snd s)"
    using it by (simp add: await_def)
  finally show ?thesis using it by (simp add: gate_log_def)
qed

text \<open>
  A run that loads a snapshot and a non-empty list of markets and reads a block runs the
  loop on them, with the timestamp of that block, from the counters 0 and 0.
\<close>

lemma processMarkets_runs_loop:
  assumes "loadLeaderboardSnapshot E w = (Inr lb, w1)"
      and "loadMarkets E w1 = (Inr markets, w2)"
      and "markets \<noteq> []"
      and "getSigner E w2 = (Inr signer, w3)"
      and "getBlock_latest E signer w3 = (Inr (Some blockTimestamp), w4)"
  shows "processMarkets L E (tr, w) =
           await (for_markets L E lb blockTimestamp markets \<lparr>processed = 0, skipped = 0\<rparr>)
             (\<lambda>c. return (Some c)) (tr, w4)"
  using assms
  by (simp add: processMarkets_def await_def call_def return_def)

text \<open>An iteration whose processing after the gate throws hands the error to the catch block.\<close>

lemma iteration_ready_error:
  assumes "\<not> ts < resolveTime market"
      and "Date_toISOString (resolveTime market * 1000) = Inr ()"
      and "ready_processing L E lb ts market s = (Inl e, s')"
  shows "iteration L E lb ts market c s = catch_block market c e s'"
  using assms
  by (simp add: iteration_def try_block_def try_catch_def await_def)

lemma catch_block_time_related:
  "time_related e \<Longrightarrow>
     catch_block market c e s =
       (Inr (c\<lparr>skipped := skipped c + 1\<rparr>), (fst s @ [ConsoleError (error_label market) e], snd s))"
  by (simp add: catch_block_def console_error_def await_def return_def error_label_def)

lemma catch_block_other:
  "\<not> time_related e \<Longrightarrow>
     catch_block market c e s = (Inl e, (fst s @ [ConsoleError (error_label market) e], snd s))"
  by (simp add: catch_block_def console_error_def await_def throw_def error_label_def)

text \<open>
  Claim C7. When the processing after the gate throws an \<open>Error\<close> whose message
  contains \<open>time\<close>, the iteration logs it, adds one to \<open>skipped\<close>, leaves
  \<open>processed\<close>, and the loop goes on with the next market.
\<close>

theorem time_related_error_is_skipped:
  assumes "\<not> blockTimestamp < resolveTime market"
      and "Date_toISOString (resolveTime market * 1000) = Inr ()"
      and "ready_processing L E lb blockTimestamp market s = (Inl (Error message), s')"
      and "string_includes message ''time''"
  shows "iteration L E lb blockTimestamp market c s =
           (Inr (c\<lparr>skipped := skipped c + 1\<rparr>),
            (fst s' @ [ConsoleError (error_label market) (Error message)], snd s'))
       \<and> for_markets L E lb blockTimestamp (market # markets) c s =
           for_markets L E lb blockTimestamp markets (c\<lparr>skipped := skipped c + 1\<rparr>)
             (fst s' @ [ConsoleError (error_label market) (Error message)], snd s')"
proof -
  have "time_related (Error message)"
    using assms(4) by (simp add: time_related_def)
  then have "iteration L E lb blockTimestamp market c s =
           (Inr (c\<lparr>skipped := skipped c + 1\<rparr>),
            (fst s' @ [ConsoleError (error_label market) (Error message)], snd s'))"
    by (simp add: iteration_ready_error [OF assms(1-3)] catch_block_time_related)
  then show ?thesis by (simp add: await_def)
qed

text \<open>
  What the \<open>catch\<close> block does with an error thrown after the gate that is not
  time-related: it logs the error and throws it again, which ends the loop.
\<close>

lemma other_error_ends_loop:
  assumes "\<not> blockTimestamp < resolveTime market"
      and "Date_toISOString (resolveTime market * 1000) = Inr ()"
      and "ready_processing L E lb blockTimestamp market s = (Inl e, s')"
      and "\<not> time_related e"
  shows "for_markets L E lb blockTimestamp (market # markets) c s =
           (Inl e, (fst s' @ [ConsoleError (error_label market) e], snd s'))"
  using assms(4)
  by (simp add: iteration_ready_error [OF assms(1-3)] catch_block_other await_def)

lemma determineWinner_absent:
  "subject_absent market lb \<Longrightarrow> determineWinner L market lb = Inl (NotFound market)"
  by (auto simp: subject_absent_def determineWinner_def NotFound_def find_absent
           split: option.splits)

lemma createResolution_absent:
  assumes "subject_absent market lb"
  shows "createResolution L E market lb ts s =
           (Inl (if unset (MarketConfig.marketId market) then MarketIdUnset market
                 else NotFound market), s)"
proof (cases "unset (MarketConfig.marketId market)")
  case True
  then show ?thesis by (simp add: createResolution_unset)
next
  case False
  then show ?thesis
    by (simp add: createResolution_set determineWinner_absent [OF assms] throw_def)
qed

lemma computeMarketId_trace:
  "\<exists>r evs w'. computeMarketId E q l s = (r, (fst s @ evs, w')) \<and> (\<forall>ev \<in> set evs. \<not> sign_or_post ev)"
proof -
  obtain r1 w1 where g1: "getSigner E (snd s) = (r1, w1)" by (cases "getSigner E (snd s)")
  obtain r2 w2 where g2: "getContracts E w1 = (r2, w2)" by (cases "getContracts E w1")
  show ?thesis
  proof (cases r1)
    case (Inl e)
    with g1 have "computeMarketId E q l s = (Inl e, (fst s @ [], w1))"
      by (simp add: computeMarketId_def await_def call_def)
    then show ?thesis by fastforce
  next
    case signer: (Inr signer)
    show ?thesis
    proof (cases r2)
      case (Inl e)
      with g1 g2 signer have "computeMarketId E q l s = (Inl e, (fst s @ [], w2))"
        by (simp add: computeMarketId_def await_def call_def)
      then show ?thesis by fastforce
    next
      case (Inr contracts)
      obtain r3 w3 where g3:
        "factory_computeMarketId E (marketFactory contracts) signer q l w2 = (r3, w3)"
        by (cases "factory_computeMarketId E (marketFactory contracts) signer q l w2")
      with g1 g2 signer Inr have "computeMarketId E q l s =
          (r3, (fst s @ [ComputeMarketIdCall (marketFactory contracts) q l], w3))"
        by (simp add: computeMarketId_def await_def call_def)
      then show ?thesis by fastforce
    qed
  qed
qed

lemma subject_absent_marketId [simp]:
  "subject_absent (market\<lparr>MarketConfig.marketId := v\<rparr>) lb = subject_absent market lb"
  by (simp add: subject_absent_def)

lemma NotFound_marketId [simp]:
  "NotFound (market\<lparr>MarketConfig.marketId := v\<rparr>) = NotFound market"
  by (simp add: NotFound_def)

lemma ready_processing_absent:
  assumes "subject_absent market lb"
  shows "\<exists>e evs w'. ready_processing L E lb ts market s = (Inl e, (fst s @ evs, w'))
           \<and> (\<forall>ev \<in> set evs. \<not> sign_or_post ev)"
proof (cases "unset (MarketConfig.marketId market)")
  case False
  then have "ready_processing L E lb ts market s = (Inl (NotFound market), (fst s @ [], snd s))"
    using createResolution_absent [OF assms, of L E ts s]
    by (simp add: ready_processing_def await_def)
  then show ?thesis by fastforce
next
  case True
  obtain r evs w' where c: "computeMarketId E (questionHash market) (lockTime market) s
        = (r, (fst s @ evs, w'))" and evs: "\<forall>ev \<in> set evs. \<not> sign_or_post ev"
    using computeMarketId_trace [of E "questionHash market" "lockTime market" s] by blast
  show ?thesis
  proof (cases r)
    case (Inl e)
    with c True have "ready_processing L E lb ts market s = (Inl e, (fst s @ evs, w'))"
      by (simp add: ready_processing_def await_def)
    with evs show ?thesis by blast
  next
    case (Inr computed)
    have "subject_absent (market\<lparr>MarketConfig.marketId := Some computed\<rparr>) lb"
      using assms by simp
    from createResolution_absent [OF this, of L E ts "(fst s @ evs, w')"] c True Inr
    have "\<exists>e. ready_processing L E lb ts market s = (Inl e, (fst s @ evs, w'))"
      by (simp add: ready_processing_def await_def return_def)
    with evs show ?thesis by blast
  qed
qed

text \<open>
  Claim C9. For a market past the gate whose subject is absent from the snapshot:
  with the market id set, \<open>createResolution\<close> throws the not-found error before any
  collaborator is called; in every case the processing ends in an error, and neither it
  nor the whole iteration records a signature or a post.
\<close>

theorem absent_subject_never_signed_or_posted:
  assumes "\<not> blockTimestamp < resolveTime market"
      and "subject_absent market lb"
  shows "(\<not> unset (MarketConfig.marketId market) \<longrightarrow>
            createResolution L E market lb blockTimestamp s = (Inl (NotFound market), s)
          \<and> ready_processing L E lb blockTimestamp market s = (Inl (NotFound market), s))
       \<and> (\<forall>computed s1.
            unset (MarketConfig.marketId market) \<and> computed \<noteq> [] \<and>
            computeMarketId E (questionHash market) (lockTime market) s = (Inr computed, s1) \<longrightarrow>
              ready_processing L E lb blockTimestamp market s = (Inl (NotFound market), s1))
       \<and> (\<exists>e evs w'. ready_processing L E lb blockTimestamp market s = (Inl e, (fst s @ evs, w'))
             \<and> (\<forall>ev \<in> set evs. \<not> sign_or_post ev))
       \<and> (\<exists>r evs w'. iteration L E lb blockTimestamp market c s = (r, (fst s @ evs, w'))
             \<and> (\<forall>ev \<in> set evs. \<not> sign_or_post ev))"
proof (intro conjI)
  show "\<not> unset (MarketConfig.marketId market) \<longrightarrow>
            createResolution L E market lb blockTimestamp s = (Inl (NotFound market), s)
          \<and> ready_processing L E lb blockTimestamp market s = (Inl (NotFound market), s)"
    by (simp add: createResolution_absent [OF assms(2)] ready_processing_def await_def)
  show "\<forall>computed s1.
            unset (MarketConfig.marketId market) \<and> computed \<noteq> [] \<and>
            computeMarketId E (questionHash market) (lockTime market) s = (Inr computed, s1) \<longrightarrow>
              ready_processing L E lb blockTimestamp market s = (Inl (NotFound market), s1)"
  proof (intro allI impI)
    fix computed s1
    assume h: "unset (MarketConfig.marketId market) \<and> computed \<noteq> [] \<and>
            computeMarketId E (questionHash market) (lockTime market) s = (Inr computed, s1)"
    have "subject_absent (market\<lparr>MarketConfig.marketId := Some computed\<rparr>) lb"
      using assms(2) by simp
    from createResolution_absent [OF this, of L E blockTimestamp s1] h
    show "ready_processing L E lb blockTimestamp market s = (Inl (NotFound market), s1)"
      by (simp add: ready_processing_def await_def return_def unset_def)
  qed
  show rp: "\<exists>e evs w'. ready_processing L E lb blockTimestamp market s = (Inl e, (fst s @ evs, w'))
             \<and> (\<forall>ev \<in> set evs. \<not> sign_or_post ev)"
    by (rule ready_processing_absent [OF assms(2)])
  show "\<exists>r evs w'. iteration L E lb blockTimestamp market c s = (r, (fst s @ evs, w'))
             \<and> (\<forall>ev \<in> set evs. \<not> sign_or_post ev)"
  proof (cases "Date_toISOString (resolveTime market * 1000)")
    case (Inl e)
    then have "iteration L E lb blockTimestamp market c s = catch_block market c e s"
      by (simp add: iteration_def try_block_def try_catch_def throw_def)
    moreover have "\<exists>r. catch_block market c e s = (r, (fst s @ [ConsoleError (error_label market) e], snd s))"
      by (cases "time_related e") (simp_all add: catch_block_time_related catch_block_other)
    ultimately show ?thesis by fastforce
  next
    case (Inr u)
    from rp obtain e evs w' where
      r: "ready_processing L E lb blockTimestamp market s = (Inl e, (fst s @ evs, w'))"
      and evs: "\<forall>ev \<in> set evs. \<not> sign_or_post ev" by blast
    from Inr have "Date_toISOString (resolveTime market * 1000) = Inr ()" by simp
    from iteration_ready_error [OF assms(1) this r]
    have "iteration L E lb blockTimestamp market c s = catch_block market c e (fst s @ evs, w')" .
    moreover have "\<exists>r. catch_block market c e (fst s @ evs, w')
        = (r, (fst s @ (evs @ [ConsoleError (error_label market) e]), w'))"
      by (cases "time_related e") (simp_all add: catch_block_time_related catch_block_other)
    moreover have "\<forall>ev \<in> set (evs @ [ConsoleError (error_label market) e]). \<not> sign_or_post ev"
      using evs by simp
    ultimately show ?thesis by metis
  qed
qed

section \<open>The concrete setting, evaluated\<close>

lemmas demo_simps =
  createResolution_def postResolution_def computeMarketId_def ready_processing_def
  try_block_def catch_block_def iteration_def try_catch_def console_error_def
  await_def call_def lift_def return_def throw_def
  demo_chain_def demo_library_def determineWinner_def generateBlobHash_def hashJson_def
  top10_market_def board_def entry_def unset_def Date_toISOString_def time_related_def

lemma demo_createResolution:
  "fst (createResolution demo_library demo_chain (top10_market ''P10'' (Some ''0xm'') 100) board 100 ([], 0))
     = Inr (\<lparr> marketId = ''0xm'', winner = 1,
               snapshotHash = ''0xhash:P01;P02;P03;P04;P05;P06;P07;P08;P09;P10;P11;P12;'',
               resolvedAt = 100, challengeUntil = 0, nonce = 100 \<rparr>, ''0xsig'')"
  by (simp add: demo_simps)

lemma demo_ready_early:
  "fst (ready_processing demo_library demo_chain board 100 (top10_market ''P10'' (Some ''0xearly'') 100) ([], 0))
     = Inl (Error ''execution reverted: resolve time not reached'')"
  by (simp add: demo_simps)

lemma demo_batch_one:
  "fst (for_markets demo_library demo_chain board 100 [top10_market ''P10'' (Some ''0xm2'') 100]
         \<lparr>processed = 0, skipped = 0\<rparr> ([], 0)) = Inr \<lparr>processed = 1, skipped = 0\<rparr>"
  by (simp add: demo_simps)

text \<open>
  Claim C4. A market whose processing throws is to be recorded as failed and the markets
  after it are still to be processed. The code does not do that on the batch of
  \<open>missing_market\<close> followed by \<open>listed_market\<close>, at block time 100 on the board of
  twelve entries: whatever the library, the collaborators and the world, the catch block
  logs the not-found error of the first market and throws it again, the run ends with that
  error, the world is as it was and the trace holds the one log line. The second market,
  which is past its resolve time and whose subject is on the board, is never processed.
\<close>

theorem failure_aborts_batch:
  "for_markets L E board 100 [missing_market, listed_market]
       \<lparr>processed = 0, skipped = 0\<rparr> ([], w)
     = (Inl (Error ''Project Ghost not found in leaderboard''),
        ([ConsoleError
            ''Error processing market 0x1111111111111111111111111111111111111111111111111111111111111111:''
            (Error ''Project Ghost not found in leaderboard'')], w))
   \<and> \<not> 100 < resolveTime listed_market
   \<and> \<not> subject_absent listed_market board"
proof -
  have gate: "\<not> (100::int) < resolveTime missing_market"
    by (simp add: missing_market_def)
  have date: "Date_toISOString (resolveTime missing_market * 1000) = Inr ()"
    by (simp add: missing_market_def Date_toISOString_def)
  have gone: "subject_absent missing_market board"
    using absent_Ghost by (simp add: subject_absent_def missing_market_def)
  have idset: "\<not> unset (MarketConfig.marketId missing_market)"
    by (simp add: unset_def missing_market_def)
  have nf: "NotFound missing_market = Error ''Project Ghost not found in leaderboard''"
    by (simp add: NotFound_def missing_market_def template_def)
  have raised: "ready_processing L E board 100 missing_market ([], w)
        = (Inl (Error ''Project Ghost not found in leaderboard''), ([], w))"
    using idset nf
    by (simp add: createResolution_absent [OF gone] ready_processing_def await_def)
  have other: "\<not> time_related (Error ''Project Ghost not found in leaderboard'')"
    by (simp add: time_related_def)
  have label: "error_label missing_market =
      ''Error processing market 0x1111111111111111111111111111111111111111111111111111111111111111:''"
    by (simp add: error_label_def missing_market_def)
  have ready: "\<not> (100::int) < resolveTime listed_market"
    by (simp add: listed_market_def)
  have listed: "\<not> subject_absent listed_market board"
    by (simp add: subject_absent_def absent_def listed_market_def board_def entry_def)
  from other_error_ends_loop [OF gate date raised other, of "[listed_market]"
         "\<lparr>processed = 0, skipped = 0\<rparr>"] label ready listed
  show ?thesis by simp
qed

theorem not_ready_market_is_skipped_witness:
  "(100::int) < resolveTime (top10_market ''P11'' None 200)
   \<and> fst (for_markets demo_library demo_chain board 100
             [top10_market ''P10'' (Some ''0xm2'') 100, top10_market ''P11'' None 200]
             \<lparr>processed = 0, skipped = 0\<rparr> ([], 0)) = Inr \<lparr>processed = 1, skipped = 1\<rparr>"
proof -
  have gate: "(100::int) < resolveTime (top10_market ''P11'' None 200)"
    by (simp add: top10_market_def)
  have before: "for_markets demo_library demo_chain board 100
          [top10_market ''P10'' (Some ''0xm2'') 100] \<lparr>processed = 0, skipped = 0\<rparr> ([], 0)
        = (Inr \<lparr>processed = 1, skipped = 0\<rparr>,
           snd (for_markets demo_library demo_chain board 100
                  [top10_market ''P10'' (Some ''0xm2'') 100] \<lparr>processed = 0, skipped = 0\<rparr> ([], 0)))"
    using demo_batch_one by (simp add: prod_eq_iff)
  from not_ready_market_is_skipped [OF gate before, of "[]"] gate
  show ?thesis by (simp add: return_def)
qed

theorem createResolution_marketId_witness:
  "createResolution demo_library demo_chain (top10_market ''P10'' None 100) board 100 ([], 0)
     = (Inl (Error ''Market ID not set for market: 0xq''), ([], 0))
   \<and> fst (createResolution demo_library demo_chain
             (top10_market ''P10'' (Some ''0xm'') 100) board 100 ([], 0))
       = Inr (\<lparr> marketId = ''0xm'', winner = 1,
                 snapshotHash = ''0xhash:P01;P02;P03;P04;P05;P06;P07;P08;P09;P10;P11;P12;'',
                 resolvedAt = 100, challengeUntil = 0, nonce = 100 \<rparr>, ''0xsig'')"
proof -
  let ?unset = "top10_market ''P10'' None 100"
  let ?set = "top10_market ''P10'' (Some ''0xm'') 100"
  let ?r = "\<lparr> marketId = ''0xm'', winner = 1,
               snapshotHash = ''0xhash:P01;P02;P03;P04;P05;P06;P07;P08;P09;P10;P11;P12;'',
               resolvedAt = 100, challengeUntil = 0, nonce = 100 \<rparr>"
  have u: "unset (MarketConfig.marketId ?unset)"
    by (simp add: unset_def top10_market_def)
  have m: "MarketIdUnset ?unset = Error ''Market ID not set for market: 0xq''"
    by (simp add: MarketIdUnset_def top10_market_def)
  have built: "createResolution demo_library demo_chain ?set board 100 ([], 0)
        = (Inr (?r, ''0xsig''), snd (createResolution demo_library demo_chain ?set board 100 ([], 0)))"
    using demo_createResolution by (simp add: prod_eq_iff)
  from createResolution_marketId [of ?unset demo_library demo_chain board 100 "([], 0)"] u m
  have first: "createResolution demo_library demo_chain ?unset board 100 ([], 0)
     = (Inl (Error ''Market ID not set for market: 0xq''), ([], 0))" by simp
  from createResolution_marketId [of ?set demo_library demo_chain board 100 "([], 0)"] built
  have "resolvedAt ?r = 100 \<and> challengeUntil ?r = 0 \<and> nonce ?r = 100" by blast
  with first demo_createResolution show ?thesis by simp
qed

theorem time_related_error_is_skipped_witness:
  "string_includes ''execution reverted: resolve time not reached'' ''time''
   \<and> fst (ready_processing demo_library demo_chain board 100
            (top10_market ''P10'' (Some ''0xearly'') 100) ([], 0))
       = Inl (Error ''execution reverted: resolve time not reached'')
   \<and> fst (iteration demo_library demo_chain board 100 (top10_market ''P10'' (Some ''0xearly'') 100)
            \<lparr>processed = 0, skipped = 0\<rparr> ([], 0)) = Inr \<lparr>processed = 0, skipped = 1\<rparr>"
proof -
  let ?m = "top10_market ''P10'' (Some ''0xearly'') 100"
  have gate: "\<not> (100::int) < resolveTime ?m"
    by (simp add: top10_market_def)
  have date: "Date_toISOString (resolveTime ?m * 1000) = Inr ()"
    by (simp add: top10_market_def Date_toISOString_def)
  have raised: "ready_processing demo_library demo_chain board 100 ?m ([], 0)
        = (Inl (Error ''execution reverted: resolve time not reached''),
           snd (ready_processing demo_library demo_chain board 100 ?m ([], 0)))"
    using demo_ready_early by (simp add: prod_eq_iff)
  have msg: "string_includes ''execution reverted: resolve time not reached'' ''time''"
    by simp
  from time_related_error_is_skipped [OF gate date raised msg, of "\<lparr>processed = 0, skipped = 0\<rparr>"]
       msg demo_ready_early
  show ?thesis by simp
qed

theorem absent_subject_never_signed_or_posted_witness:
  "\<not> (100::int) < resolveTime (top10_market ''Ghost'' (Some ''0xm1'') 100)
   \<and> subject_absent (top10_market ''Ghost'' (Some ''0xm1'') 100) board
   \<and> createResolution demo_library demo_chain (top10_market ''Ghost'' (Some ''0xm1'') 100) board 100 ([], 0)
       = (Inl (Error ''Project Ghost not found in leaderboard''), ([], 0))"
proof -
  let ?ghost = "top10_market ''Ghost'' (Some ''0xm1'') 100"
  have gate: "\<not> (100::int) < resolveTime ?ghost"
    by (simp add: top10_market_def)
  have gone: "subject_absent ?ghost board"
    using absent_Ghost by (simp add: subject_absent_def top10_market_def)
  have idset: "\<not> unset (MarketConfig.marketId ?ghost)"
    by (simp add: unset_def top10_market_def)
  have nf: "NotFound ?ghost = Error ''Project Ghost not found in leaderboard''"
    by (simp add: NotFound_def top10_market_def template_def)
  from absent_subject_never_signed_or_posted [OF gate gone, of demo_library demo_chain "([], 0)"]
       gate gone idset nf
  show ?thesis by simp
qed

end
